theory Spec2Isabelle
  imports Main "HOL-Library.Multiset"
begin

section \<open>subgit: fetching one subfolder of a GitHub repository\<close>

text \<open>
  A shallow embedding of \<^verbatim>\<open>src/python/app.py\<close>: the URL parser
  \<^verbatim>\<open>parse_github_url\<close>, the class \<^verbatim>\<open>GithubFetcher\<close> with its four
  methods, and \<^verbatim>\<open>main\<close>. Python strings are \<^typ>\<open>string\<close> (the characters are
  those of \<^typ>\<open>char\<close>, one byte each); an exception is a
  value of \<open>exn\<close> returned on the left of a sum; the network, the file system and the
  order in which concurrent tasks complete are the fields of a record \<open>world\<close>.
\<close>

subsection \<open>Exceptions\<close>

text \<open>
  The exception classes the script can meet, each with its message (\<^verbatim>\<open>str(e)\<close>).
  \<^verbatim>\<open>aiohttp.ClientConnectorError\<close> is a subclass of \<^verbatim>\<open>aiohttp.ClientError\<close>;
  \<open>OtherError\<close> stands for every class that is neither of those named here.
\<close>

datatype exn =
    ClientError string
  | ClientConnectorError string
  | IndexError string
  | ValueError string
  | AttributeError string
  | OSError string
  | OtherError string

fun str_exn :: "exn \<Rightarrow> string" where
  "str_exn (ClientError m) = m"
| "str_exn (ClientConnectorError m) = m"
| "str_exn (IndexError m) = m"
| "str_exn (ValueError m) = m"
| "str_exn (AttributeError m) = m"
| "str_exn (OSError m) = m"
| "str_exn (OtherError m) = m"

text \<open>\<^verbatim>\<open>isinstance(e, aiohttp.ClientError)\<close>: the class itself or a subclass.\<close>

fun isinstance_ClientError :: "exn \<Rightarrow> bool" where
  "isinstance_ClientError (ClientError m) = True"
| "isinstance_ClientError (ClientConnectorError m) = True"
| "isinstance_ClientError e = False"

fun isinstance_ClientConnectorError :: "exn \<Rightarrow> bool" where
  "isinstance_ClientConnectorError (ClientConnectorError m) = True"
| "isinstance_ClientConnectorError e = False"

subsection \<open>Python's string and list operations\<close>

text \<open>\<^verbatim>\<open>s.startswith(p)\<close>.\<close>

fun str_startswith :: "string \<Rightarrow> string \<Rightarrow> bool" where
  "str_startswith s [] = True"
| "str_startswith [] (p # ps) = False"
| "str_startswith (c # cs) (p # ps) = (c = p \<and> str_startswith cs ps)"

text \<open>\<^verbatim>\<open>s.endswith(p)\<close>.\<close>

definition str_endswith :: "string \<Rightarrow> string \<Rightarrow> bool" where
  "str_endswith s p = str_startswith (rev s) (rev p)"

text \<open>\<^verbatim>\<open>s.strip(ch)\<close> for a one-character argument: leading and trailing copies go.\<close>

definition str_strip :: "char \<Rightarrow> string \<Rightarrow> string" where
  "str_strip ch s = rev (dropWhile (\<lambda>c. c = ch) (rev (dropWhile (\<lambda>c. c = ch) s)))"

text \<open>
  \<^verbatim>\<open>s.split(sep)\<close> for a one-character separator. Empty parts are kept:
  \<^verbatim>\<open>''.split('/') == ['']\<close> and \<^verbatim>\<open>'a//b'.split('/') == ['a', '', 'b']\<close>.
\<close>

fun str_split :: "char \<Rightarrow> string \<Rightarrow> string list" where
  "str_split sep [] = [[]]"
| "str_split sep (c # cs) =
     (if c = sep then [] # str_split sep cs
      else (case str_split sep cs of
              [] \<Rightarrow> [[c]]
            | part # parts \<Rightarrow> (c # part) # parts))"

text \<open>\<^verbatim>\<open>sep.join(parts)\<close>.\<close>

fun str_join :: "string \<Rightarrow> string list \<Rightarrow> string" where
  "str_join sep [] = []"
| "str_join sep [x] = x"
| "str_join sep (x # y # ys) = x @ sep @ str_join sep (y # ys)"

text \<open>\<^verbatim>\<open>xs[i]\<close> for a non-negative index: out of range raises \<^verbatim>\<open>IndexError\<close>.\<close>

definition getitem :: "'a list \<Rightarrow> nat \<Rightarrow> exn + 'a" where
  "getitem xs i =
     (if i < length xs then Inr (xs ! i) else Inl (IndexError ''list index out of range''))"

text \<open>\<^verbatim>\<open>str(n)\<close> for a non-negative integer, as an f-string prints it.\<close>

definition digit_char :: "nat \<Rightarrow> char" where
  "digit_char d = ''0123456789'' ! d"

fun str_nat :: "nat \<Rightarrow> string" where
  "str_nat n = (if n < 10 then [digit_char n] else str_nat (n div 10) @ [digit_char (n mod 10)])"

declare str_nat.simps [simp del]

subsection \<open>The standard library: \<^verbatim>\<open>urllib.parse.urlparse\<close>\<close>

text \<open>
  \<^verbatim>\<open>urlparse(url)\<close> returns a six-field \<^verbatim>\<open>ParseResult\<close>. The model follows
  \<^verbatim>\<open>urlsplit\<close> and \<^verbatim>\<open>urlparse\<close> of CPython step by step: leading control characters
  and spaces are stripped, tabs and line breaks removed, the scheme is cut at the first
  colon when everything before it is a scheme character, the authority after \<^verbatim>\<open>//\<close>
  ends at the first of \<^verbatim>\<open>/ ? #\<close>, then the fragment, the query and (for the schemes of
  \<^verbatim>\<open>uses_params\<close>) the parameters of the last path segment are cut off. An authority
  with one square bracket and not the other raises \<^verbatim>\<open>ValueError\<close>. CPython's further
  checks of the host between two brackets (it must be an IP literal) and of non-ASCII
  hosts raise \<^verbatim>\<open>ValueError\<close> as well; they are not modelled, so the model is exact for
  every URL whose authority has no square bracket and only ASCII characters.
\<close>

record ParseResult =
  url_scheme :: string
  url_netloc :: string
  url_path :: string
  url_params :: string
  url_query :: string
  url_fragment :: string

definition is_ascii_alpha :: "char \<Rightarrow> bool" where
  "is_ascii_alpha c =
     (let k = (of_char c :: nat) in (65 \<le> k \<and> k \<le> 90) \<or> (97 \<le> k \<and> k \<le> 122))"

definition is_scheme_char :: "char \<Rightarrow> bool" where
  "is_scheme_char c =
     (let k = (of_char c :: nat) in
        is_ascii_alpha c \<or> (48 \<le> k \<and> k \<le> 57) \<or> c \<in> set ''+-.'')"

definition ascii_lower :: "char \<Rightarrow> char" where
  "ascii_lower c =
     (let k = (of_char c :: nat) in if 65 \<le> k \<and> k \<le> 90 then char_of (k + 32) else c)"

definition uses_params :: "string list" where
  "uses_params = ['''', ''ftp'', ''hdl'', ''prospero'', ''http'', ''imap'',
                  ''https'', ''shttp'', ''rtsp'', ''rtsps'', ''rtspu'', ''sip'',
                  ''sips'', ''mms'', ''sftp'', ''tel'']"

text \<open>\<^verbatim>\<open>s.split(ch, 1)\<close> as a pair: the text before the first \<open>ch\<close> and the text after it.\<close>

definition split_once :: "char \<Rightarrow> string \<Rightarrow> string \<times> string" where
  "split_once ch s = (takeWhile (\<lambda>c. c \<noteq> ch) s, drop 1 (dropWhile (\<lambda>c. c \<noteq> ch) s))"

definition splitparams :: "string \<Rightarrow> string \<times> string" where
  "splitparams url =
     (if CHR ''/'' \<in> set url then
        (let last_seg = rev (takeWhile (\<lambda>c. c \<noteq> CHR ''/'') (rev url));
             front = take (length url - length last_seg) url
         in if CHR '';'' \<in> set last_seg
            then (front @ fst (split_once CHR '';'' last_seg), snd (split_once CHR '';'' last_seg))
            else (url, []))
      else split_once CHR '';'' url)"

definition urlparse :: "string \<Rightarrow> exn + ParseResult" where
  "urlparse url0 =
     (let url1 = dropWhile (\<lambda>c. (of_char c :: nat) \<le> 32) url0;
          url2 = filter (\<lambda>c. (of_char c :: nat) \<notin> {9, 10, 13}) url1;
          pre = takeWhile (\<lambda>c. c \<noteq> CHR '':'') url2;
          has_scheme = (CHR '':'' \<in> set url2 \<and> pre \<noteq> [] \<and> is_ascii_alpha (hd pre)
                        \<and> list_all is_scheme_char pre);
          scheme = (if has_scheme then map ascii_lower pre else []);
          url3 = (if has_scheme then drop (length pre + 1) url2 else url2);
          has_netloc = (take 2 url3 = ''//'');
          netloc = (if has_netloc
                    then takeWhile (\<lambda>c. c \<notin> set ''/?#'') (drop 2 url3) else []);
          url4 = (if has_netloc
                  then dropWhile (\<lambda>c. c \<notin> set ''/?#'') (drop 2 url3) else url3)
      in if (CHR ''['' \<in> set netloc \<and> CHR '']'' \<notin> set netloc)
            \<or> (CHR '']'' \<in> set netloc \<and> CHR ''['' \<notin> set netloc)
         then Inl (ValueError ''Invalid IPv6 URL'')
         else
           (let fragment = snd (split_once CHR ''#'' url4);
                url5 = fst (split_once CHR ''#'' url4);
                query = snd (split_once CHR ''?'' url5);
                url6 = fst (split_once CHR ''?'' url5);
                with_params = (scheme \<in> set uses_params \<and> CHR '';'' \<in> set url6)
            in Inr \<lparr> url_scheme = scheme, url_netloc = netloc,
                     url_path = (if with_params then fst (splitparams url6) else url6),
                     url_params = (if with_params then snd (splitparams url6) else []),
                     url_query = query, url_fragment = fragment \<rparr>))"

subsection \<open>The Locator: \<^verbatim>\<open>parse_github_url\<close>\<close>

text \<open>
  Lines 80 to 86. The three list reads \<^verbatim>\<open>path_parts[0]\<close>, \<^verbatim>\<open>path_parts[1]\<close> and
  \<^verbatim>\<open>path_parts[3]\<close> each raise \<^verbatim>\<open>IndexError\<close> on a list that is too short; the slice
  \<^verbatim>\<open>path_parts[4:]\<close> never raises. The part at index 2 is not read.
\<close>

definition path_parts_of :: "string \<Rightarrow> string list" where
  "path_parts_of p = str_split CHR ''/'' (str_strip CHR ''/'' p)"

definition parse_github_url :: "string \<Rightarrow> exn + (string \<times> string \<times> string)" where
  "parse_github_url url =
     (case urlparse url of
        Inl e \<Rightarrow> Inl e
      | Inr parsed_url \<Rightarrow>
          (let path_parts = path_parts_of (url_path parsed_url) in
           case getitem path_parts 0 of
             Inl e \<Rightarrow> Inl e
           | Inr part0 \<Rightarrow>
               (case getitem path_parts 1 of
                  Inl e \<Rightarrow> Inl e
                | Inr part1 \<Rightarrow>
                    (let reponame' = part0 @ ''/'' @ part1 in
                     case getitem path_parts 3 of
                       Inl e \<Rightarrow> Inl e
                     | Inr branch' \<Rightarrow>
                         (let subfolder' = str_join ''/'' (drop 4 path_parts)
                          in Inr (reponame', branch', subfolder'))))))"

subsection \<open>The standard library: \<^verbatim>\<open>os.path\<close> on POSIX\<close>

text \<open>
  \<^verbatim>\<open>os.path.join(a, b)\<close>: an absolute \<open>b\<close> replaces \<open>a\<close>; otherwise \<open>b\<close> is appended,
  after a separator unless \<open>a\<close> is empty or ends with one.
\<close>

definition os_path_join :: "string \<Rightarrow> string \<Rightarrow> string" where
  "os_path_join a b =
     (if str_startswith b ''/'' then b
      else if a = [] \<or> str_endswith a ''/'' then a @ b
      else a @ ''/'' @ b)"

text \<open>
  \<^verbatim>\<open>os.path.dirname(p)\<close>: everything up to the last separator, with the trailing
  separators removed unless nothing else is left.
\<close>

definition os_path_dirname :: "string \<Rightarrow> string" where
  "os_path_dirname p =
     (let head = rev (dropWhile (\<lambda>c. c \<noteq> CHR ''/'') (rev p))
      in if head \<noteq> [] \<and> \<not> list_all (\<lambda>c. c = CHR ''/'') head
         then rev (dropWhile (\<lambda>c. c = CHR ''/'') (rev head))
         else head)"

subsection \<open>The data model\<close>

text \<open>
  One entry of the \<^verbatim>\<open>tree\<close> array of the GitHub tree response: the values of its keys
  \<^verbatim>\<open>path\<close> and \<^verbatim>\<open>type\<close>.
\<close>

record TreeEntry =
  item_path :: string
  item_type :: string

text \<open>
  An HTTP response as the script reads it: \<^verbatim>\<open>response.status\<close>, the outcome of
  \<^verbatim>\<open>await response.text()\<close>, and the outcome of \<^verbatim>\<open>(await response.json())['tree']\<close>
  (decoding the body and reading the key can both raise).
\<close>

record Response =
  status :: nat
  body_text :: "exn + string"
  json_tree :: "exn + TreeEntry list"

text \<open>What entering \<^verbatim>\<open>async with session.get(...)\<close> does: a response, or an exception.\<close>

datatype get_result = Responds Response | Raises exn

text \<open>The progress bar: \<^verbatim>\<open>tqdm(total=..., desc=...)\<close>, its counter \<^verbatim>\<open>n\<close>, and whether it was closed.\<close>

record tqdm =
  tqdm_total :: nat
  tqdm_desc :: string
  tqdm_n :: nat
  tqdm_closed :: bool

text \<open>The attributes of a \<^verbatim>\<open>GithubFetcher\<close> object (lines 11 to 21).\<close>

record GithubFetcher =
  reponame :: string
  branch :: string
  subfolder :: string
  root_dir :: string
  total_files :: nat
  progress_bar :: "tqdm option"
  verify_ssl :: bool
  pat_token :: "string option"
  headers :: "(string \<times> string) list"

text \<open>
  Everything outside the script. \<open>session_get url ssl headers\<close> is the outcome of the GET
  request; the three \<open>_error\<close> fields say whether \<^verbatim>\<open>os.makedirs\<close>, \<^verbatim>\<open>open(..., 'w')\<close> and
  \<^verbatim>\<open>file.write\<close> raise at a path; \<open>completion_order\<close> gives the order in which the
  tasks handed to \<^verbatim>\<open>asyncio.gather\<close> finish.
\<close>

record world =
  session_get :: "string \<Rightarrow> bool \<Rightarrow> (string \<times> string) list \<Rightarrow> get_result"
  makedirs_error :: "string \<Rightarrow> exn option"
  open_error :: "string \<Rightarrow> exn option"
  write_error :: "string \<Rightarrow> exn option"
  completion_order :: "TreeEntry list \<Rightarrow> TreeEntry list"

text \<open>
  What the script does to the outside: the lines printed, the URLs requested, the
  directories \<^verbatim>\<open>os.makedirs\<close> was asked for, and the text of each file by the path it
  was opened with. A file opened in text mode holds the string written to it (on POSIX
  text mode translates no line ending); how the platform encodes that string is below
  this model.
\<close>

record system =
  stdout :: "string list"
  requests :: "string list"
  dirs :: "string set"
  files :: "string \<rightharpoonup> string"

definition print :: "system \<Rightarrow> string \<Rightarrow> system" where
  "print sys line = sys\<lparr>stdout := stdout sys @ [line]\<rparr>"

subsection \<open>\<^verbatim>\<open>GithubFetcher\<close>\<close>

text \<open>\<^verbatim>\<open>__init__\<close>: \<^verbatim>\<open>if self.pat_token\<close> is false for \<^verbatim>\<open>None\<close> and for the empty string.\<close>

definition init ::
  "string \<Rightarrow> string \<Rightarrow> string \<Rightarrow> string \<Rightarrow> bool \<Rightarrow> string option \<Rightarrow> GithubFetcher" where
  "init reponame' branch' subfolder' root_dir' verify_ssl' pat_token' =
     \<lparr> reponame = reponame', branch = branch', subfolder = subfolder', root_dir = root_dir',
       total_files = 0, progress_bar = None, verify_ssl = verify_ssl', pat_token = pat_token',
       headers = (case pat_token' of
                    None \<Rightarrow> []
                  | Some t \<Rightarrow> if t = [] then [] else [(''Authorization'', ''token '' @ t)]) \<rparr>"

text \<open>The two f-strings that build the request URLs (lines 24 and 54).\<close>

definition raw_url :: "GithubFetcher \<Rightarrow> string \<Rightarrow> string" where
  "raw_url self filepath =
     ''https://raw.githubusercontent.com/'' @ reponame self @ ''/refs/heads/'' @ branch self
       @ ''/'' @ filepath"

definition tree_url :: "GithubFetcher \<Rightarrow> string" where
  "tree_url self =
     ''https://api.github.com/repos/'' @ reponame self @ ''/git/trees/'' @ branch self
       @ ''?recursive=1''"

text \<open>
  \<^verbatim>\<open>get_file_content\<close> (lines 23 to 37). The \<^verbatim>\<open>except\<close> clauses are tried in their order,
  so the second one is reached only by an exception that is a \<^verbatim>\<open>ClientConnectorError\<close>
  and not a \<^verbatim>\<open>ClientError\<close>; any other exception leaves the method.
\<close>

definition get_file_content ::
  "world \<Rightarrow> GithubFetcher \<Rightarrow> system \<Rightarrow> string \<Rightarrow> (exn + string option) \<times> system" where
  "get_file_content w self sys filepath =
     (let url = raw_url self filepath;
          sys1 = sys\<lparr>requests := requests sys @ [url]\<rparr>;
          attempt =
            (case session_get w url (verify_ssl self) (headers self) of
               Raises e \<Rightarrow> (Inl e, sys1)
             | Responds response \<Rightarrow>
                 if status response = 200 then
                   (case body_text response of
                      Inl e \<Rightarrow> (Inl e, sys1)
                    | Inr t \<Rightarrow> (Inr (Some t), sys1))
                 else
                   (Inr None, print sys1 (''Error '' @ str_nat (status response) @ '' for '' @ url)))
      in case attempt of
           (Inl e, sys2) \<Rightarrow>
             if isinstance_ClientError e then
               (Inr None, print sys2 (''Error fetching '' @ url @ '': '' @ str_exn e))
             else if isinstance_ClientConnectorError e then
               (Inr None, print sys2 (''Connection error for '' @ url @ '': '' @ str_exn e))
             else (Inl e, sys2)
         | (Inr content, sys2) \<Rightarrow> (Inr content, sys2))"

text \<open>
  \<^verbatim>\<open>save_file_content\<close> (lines 39 to 43). \<^verbatim>\<open>os.makedirs('')\<close> raises
  \<^verbatim>\<open>FileNotFoundError\<close> whatever the file system holds; opening with mode \<^verbatim>\<open>'w'\<close>
  truncates the file before anything is written.
\<close>

definition save_file_content ::
  "world \<Rightarrow> GithubFetcher \<Rightarrow> system \<Rightarrow> string \<Rightarrow> string \<Rightarrow> (exn + unit) \<times> system" where
  "save_file_content w self sys filepath content =
     (let full_path = os_path_join (root_dir self) filepath;
          dir = os_path_dirname full_path
      in if dir = [] then
           (Inl (OSError (''[Errno 2] No such file or directory: '' @ [CHR 0x27, CHR 0x27])), sys)
         else
           (case makedirs_error w dir of
              Some e \<Rightarrow> (Inl e, sys)
            | None \<Rightarrow>
                (let sys1 = sys\<lparr>dirs := insert dir (dirs sys)\<rparr> in
                 case open_error w full_path of
                   Some e \<Rightarrow> (Inl e, sys1)
                 | None \<Rightarrow>
                     (let sys2 = sys1\<lparr>files := (files sys1)(full_path \<mapsto> [])\<rparr> in
                      case write_error w full_path of
                        Some e \<Rightarrow> (Inl e, sys2)
                      | None \<Rightarrow>
                          (Inr (), sys2\<lparr>files := (files sys2)(full_path \<mapsto> content)\<rparr>)))))"

text \<open>
  \<^verbatim>\<open>process_file\<close> (lines 45 to 51). \<^verbatim>\<open>if content\<close> is false for \<^verbatim>\<open>None\<close> and for the
  empty string. \<^verbatim>\<open>self.progress_bar.update(1)\<close> on a fetcher whose bar is still
  \<^verbatim>\<open>None\<close> raises \<^verbatim>\<open>AttributeError\<close>.
\<close>

definition tqdm_update :: "tqdm \<Rightarrow> nat \<Rightarrow> tqdm" where
  "tqdm_update bar k = bar\<lparr>tqdm_n := tqdm_n bar + k\<rparr>"

definition process_file ::
  "world \<Rightarrow> GithubFetcher \<Rightarrow> system \<Rightarrow> TreeEntry
     \<Rightarrow> (exn + bool) \<times> GithubFetcher \<times> system" where
  "process_file w self sys item =
     (let filepath = item_path item in
      case get_file_content w self sys filepath of
        (Inl e, sys1) \<Rightarrow> (Inl e, self, sys1)
      | (Inr content, sys1) \<Rightarrow>
          (case (case content of
                   None \<Rightarrow> (Inr (), sys1)
                 | Some t \<Rightarrow>
                     if t \<noteq> [] then save_file_content w self sys1 filepath t
                     else (Inr (), sys1)) of
             (Inl e, sys2) \<Rightarrow> (Inl e, self, sys2)
           | (Inr u, sys2) \<Rightarrow>
               (case progress_bar self of
                  None \<Rightarrow>
                    (Inl (AttributeError ([CHR 0x27] @ ''NoneType'' @ [CHR 0x27]
                       @ '' object has no attribute '' @ [CHR 0x27] @ ''update'' @ [CHR 0x27])),
                     self, sys2)
                | Some bar \<Rightarrow>
                    (Inr True, self\<lparr>progress_bar := Some (tqdm_update bar 1)\<rparr>, sys2))))"

text \<open>
  \<^verbatim>\<open>await asyncio.gather(*tasks)\<close> (line 70). Each task suspends once, while its request
  is on the network; what it does after the response has arrived (print a diagnostic or
  write the file, then count) runs without another task in between, and the counter
  update commutes with every other step. The final state of a batch is therefore the
  state after running the tasks one after the other in the order in which they finish,
  which is the list this function is given; the request of a task is recorded when the
  task is run. The first task to raise ends the \<^verbatim>\<open>await\<close> with its exception; the
  tasks still pending are then cancelled when \<^verbatim>\<open>asyncio.run\<close> unwinds, and the model
  leaves them undone.
\<close>

fun gather ::
  "world \<Rightarrow> GithubFetcher \<Rightarrow> system \<Rightarrow> TreeEntry list
     \<Rightarrow> (exn + unit) \<times> GithubFetcher \<times> system" where
  "gather w self sys [] = (Inr (), self, sys)"
| "gather w self sys (item # items) =
     (case process_file w self sys item of
        (Inl e, self1, sys1) \<Rightarrow> (Inl e, self1, sys1)
      | (Inr done, self1, sys1) \<Rightarrow> gather w self1 sys1 items)"

text \<open>The list comprehension of line 60.\<close>

definition files_to_fetch :: "GithubFetcher \<Rightarrow> TreeEntry list \<Rightarrow> TreeEntry list" where
  "files_to_fetch self tree =
     filter (\<lambda>item. str_startswith (item_path item) (subfolder self) \<and> item_type item = ''blob'')
       tree"

text \<open>
  \<^verbatim>\<open>fetch_files\<close> (lines 53 to 78). As in \<^verbatim>\<open>get_file_content\<close>, the first
  \<^verbatim>\<open>except\<close> clause takes every \<^verbatim>\<open>ClientError\<close>, also one that a task raised.
\<close>

definition fetch_files ::
  "world \<Rightarrow> GithubFetcher \<Rightarrow> system \<Rightarrow> (exn + unit) \<times> GithubFetcher \<times> system" where
  "fetch_files w self sys =
     (let url = tree_url self;
          sys1 = sys\<lparr>requests := requests sys @ [url]\<rparr>;
          attempt =
            (case session_get w url (verify_ssl self) (headers self) of
               Raises e \<Rightarrow> (Inl e, self, sys1)
             | Responds response \<Rightarrow>
                 if status response = 200 then
                   (case json_tree response of
                      Inl e \<Rightarrow> (Inl e, self, sys1)
                    | Inr tree \<Rightarrow>
                        (let files_to_fetch' = files_to_fetch self tree;
                             self1 = self\<lparr>total_files := length files_to_fetch'\<rparr>
                         in if total_files self1 = 0 then
                              (Inr (), self1, print sys1 ''No files found matching the criteria.'')
                            else
                              (let self2 = self1\<lparr>progress_bar :=
                                     Some \<lparr> tqdm_total = total_files self1,
                                            tqdm_desc = ''Downloading Files'',
                                            tqdm_n = 0, tqdm_closed = False \<rparr>\<rparr>
                               in case gather w self2 sys1 (completion_order w files_to_fetch') of
                                    (Inl e, self3, sys3) \<Rightarrow> (Inl e, self3, sys3)
                                  | (Inr u, self3, sys3) \<Rightarrow>
                                      (Inr (),
                                       self3\<lparr>progress_bar :=
                                         map_option (\<lambda>bar. bar\<lparr>tqdm_closed := True\<rparr>)
                                           (progress_bar self3)\<rparr>,
                                       sys3))))
                 else
                   (Inr (), self,
                    print sys1 (''Error '' @ str_nat (status response) @ '' for '' @ url)))
      in case attempt of
           (Inl e, self', sys') \<Rightarrow>
             if isinstance_ClientError e then
               (Inr (), self', print sys' (''Error fetching tree: '' @ str_exn e))
             else if isinstance_ClientConnectorError e then
               (Inr (), self', print sys' (''Connection error for tree: '' @ str_exn e))
             else (Inl e, self', sys')
         | (Inr u, self', sys') \<Rightarrow> (Inr (), self', sys'))"

subsection \<open>\<^verbatim>\<open>main\<close> and the script\<close>

text \<open>
  \<^verbatim>\<open>main\<close> (lines 88 to 91). The fetcher is a local object; what remains of a run is
  the result and the outside.
\<close>

definition main ::
  "world \<Rightarrow> system \<Rightarrow> string \<Rightarrow> string \<Rightarrow> bool \<Rightarrow> string option \<Rightarrow> (exn + unit) \<times> system" where
  "main w sys url root_dir' verify_ssl' pat_token' =
     (case parse_github_url url of
        Inl e \<Rightarrow> (Inl e, sys)
      | Inr (reponame', branch', subfolder') \<Rightarrow>
          (let fetcher = init reponame' branch' subfolder' root_dir' verify_ssl' pat_token' in
           case fetch_files w fetcher sys of
             (r, fetcher', sys') \<Rightarrow> (r, sys')))"

text \<open>
  \<^verbatim>\<open>asyncio.run(main(...))\<close> at the end of the script (line 102), given the parsed
  arguments: an exception that leaves \<^verbatim>\<open>main\<close> is unhandled, and the interpreter then
  exits with status 1; otherwise the script ends and the exit status is 0.
\<close>

definition exit_status :: "world \<Rightarrow> system \<Rightarrow> string \<Rightarrow> string \<Rightarrow> bool \<Rightarrow> string option \<Rightarrow> nat" where
  "exit_status w sys url root_dir' verify_ssl' pat_token' =
     (case main w sys url root_dir' verify_ssl' pat_token' of
        (Inl e, sys') \<Rightarrow> 1
      | (Inr u, sys') \<Rightarrow> 0)"

subsection \<open>Vocabulary of the statements\<close>

text \<open>
  The request for an item is answered: by a response (whose body can be read when the
  status is 200), or by an exception of class \<^verbatim>\<open>ClientError\<close>.
\<close>

definition answered :: "world \<Rightarrow> GithubFetcher \<Rightarrow> TreeEntry \<Rightarrow> bool" where
  "answered w self item =
     (case session_get w (raw_url self (item_path item)) (verify_ssl self) (headers self) of
        Responds r \<Rightarrow>
          (if status r = 200 then (case body_text r of Inl e \<Rightarrow> False | Inr t \<Rightarrow> True)
           else True)
      | Raises e \<Rightarrow> isinstance_ClientError e)"

text \<open>The text of an item whose request is answered with status 200 and a body that is not empty.\<close>

definition fetched_text :: "world \<Rightarrow> GithubFetcher \<Rightarrow> TreeEntry \<Rightarrow> string option" where
  "fetched_text w self item =
     (case session_get w (raw_url self (item_path item)) (verify_ssl self) (headers self) of
        Responds r \<Rightarrow>
          (if status r = 200 then
             (case body_text r of Inl e \<Rightarrow> None | Inr t \<Rightarrow> if t \<noteq> [] then Some t else None)
           else None)
      | Raises e \<Rightarrow> None)"

text \<open>Where the script writes an item, and whether the file system lets it.\<close>

definition full_path_of :: "GithubFetcher \<Rightarrow> TreeEntry \<Rightarrow> string" where
  "full_path_of self item = os_path_join (root_dir self) (item_path item)"

definition writable :: "world \<Rightarrow> GithubFetcher \<Rightarrow> TreeEntry \<Rightarrow> bool" where
  "writable w self item =
     (os_path_dirname (full_path_of self item) \<noteq> []
      \<and> makedirs_error w (os_path_dirname (full_path_of self item)) = None
      \<and> open_error w (full_path_of self item) = None
      \<and> write_error w (full_path_of self item) = None)"

subsection \<open>Example runs\<close>

definition sys0 :: system where
  "sys0 = \<lparr> stdout = [], requests = [], dirs = {}, files = Map.empty \<rparr>"

definition example_tree :: "TreeEntry list" where
  "example_tree =
     [\<lparr> item_path = ''src/a.py'', item_type = ''blob'' \<rparr>,
      \<lparr> item_path = ''src/lib/b.py'', item_type = ''blob'' \<rparr>,
      \<lparr> item_path = ''docs/c.md'', item_type = ''blob'' \<rparr>,
      \<lparr> item_path = ''src/lib'', item_type = ''tree'' \<rparr>]"

text \<open>
  A network on which the tree of \<^verbatim>\<open>acme/widgets\<close> at \<^verbatim>\<open>main\<close> is \<open>example_tree\<close>,
  \<^verbatim>\<open>src/lib/b.py\<close> can be fetched and every other request is answered with status 404;
  the tasks of a batch finish in the reverse of the order in which they were created.
\<close>

definition not_found :: Response where
  "not_found = \<lparr> status = 404, body_text = Inr ''404: Not Found'',
                  json_tree = Inl (OtherError ''not a JSON document'') \<rparr>"

definition example_world :: world where
  "example_world =
     \<lparr> session_get = (\<lambda>url ssl hdrs.
         if url = ''https://api.github.com/repos/acme/widgets/git/trees/main?recursive=1''
         then Responds \<lparr> status = 200, body_text = Inr ''{}'', json_tree = Inr example_tree \<rparr>
         else if url = ''https://raw.githubusercontent.com/acme/widgets/refs/heads/main/src/lib/b.py''
         then Responds \<lparr> status = 200, body_text = Inr ''x = 1'',
                          json_tree = Inl (OtherError ''not a JSON document'') \<rparr>
         else Responds not_found),
       makedirs_error = (\<lambda>p. None), open_error = (\<lambda>p. None), write_error = (\<lambda>p. None),
       completion_order = rev \<rparr>"

text \<open>
  The fetcher that \<^verbatim>\<open>main\<close> builds for
  \<^verbatim>\<open>https://github.com/acme/widgets/tree/main/src\<close> and the output directory \<^verbatim>\<open>out\<close>.
\<close>

definition example_fetcher :: GithubFetcher where
  "example_fetcher = init ''acme/widgets'' ''main'' ''src'' ''out'' True None"

text \<open>The same fetcher inside a batch of two tasks, its progress bar created.\<close>

definition example_task_fetcher :: GithubFetcher where
  "example_task_fetcher =
     example_fetcher\<lparr>total_files := 2,
       progress_bar := Some \<lparr> tqdm_total = 2, tqdm_desc = ''Downloading Files'',
                              tqdm_n = 0, tqdm_closed = False \<rparr>\<rparr>"

text \<open>A network that answers every request with status 404, and one that cannot be reached.\<close>

definition world_404 :: world where
  "world_404 =
     \<lparr> session_get = (\<lambda>url ssl hdrs. Responds not_found),
       makedirs_error = (\<lambda>p. None), open_error = (\<lambda>p. None), write_error = (\<lambda>p. None),
       completion_order = (\<lambda>items. items) \<rparr>"

definition world_offline :: world where
  "world_offline =
     \<lparr> session_get = (\<lambda>url ssl hdrs. Raises (ClientConnectorError ''Cannot connect to host'')),
       makedirs_error = (\<lambda>p. None), open_error = (\<lambda>p. None), write_error = (\<lambda>p. None),
       completion_order = (\<lambda>items. items) \<rparr>"

section \<open>Properties\<close>

subsection \<open>Strings\<close>

lemma str_startswith_iff: "str_startswith s p \<longleftrightarrow> (\<exists>rest. s = p @ rest)"
  by (induction s p rule: str_startswith.induct) auto

lemma str_split_no_sep: "sep \<notin> set x \<Longrightarrow> str_split sep x = [x]"
  by (induction x) auto

lemma str_split_append_sep:
  "sep \<notin> set x \<Longrightarrow> str_split sep (x @ sep # s) = x # str_split sep s"
  by (induction x) auto

lemma str_split_join:
  "xs \<noteq> [] \<Longrightarrow> \<forall>x \<in> set xs. sep \<notin> set x \<Longrightarrow> str_split sep (str_join [sep] xs) = xs"
proof (induction xs)
  case Nil
  then show ?case by simp
next
  case (Cons x xs)
  show ?case
  proof (cases xs)
    case Nil
    with Cons.prems show ?thesis by (simp add: str_split_no_sep)
  next
    case (Cons y ys)
    with Cons.IH Cons.prems have "str_split sep (str_join [sep] xs) = xs" by simp
    with Cons Cons.prems show ?thesis by (simp add: str_split_append_sep)
  qed
qed

lemma hd_str_join: "x \<noteq> [] \<Longrightarrow> hd (str_join sep (x # xs)) = hd x"
  by (cases xs) auto

lemma str_join_Nil_iff: "\<forall>x \<in> set xs. x \<noteq> [] \<Longrightarrow> str_join sep xs = [] \<longleftrightarrow> xs = []"
  by (induction sep xs rule: str_join.induct) auto

lemma last_str_join:
  "xs \<noteq> [] \<Longrightarrow> \<forall>x \<in> set xs. x \<noteq> [] \<Longrightarrow> last (str_join sep xs) = last (last xs)"
  by (induction sep xs rule: str_join.induct) (auto simp: str_join_Nil_iff)

lemma dropWhile_replicate_append:
  "dropWhile (\<lambda>c. c = ch) (replicate i ch @ s) = dropWhile (\<lambda>c. c = ch) s"
  by (induction i) auto

lemma dropWhile_replicate_same: "dropWhile (\<lambda>c. c = ch) (replicate j ch) = []"
  by (induction j) auto

lemma str_strip_padded:
  assumes "s = [] \<or> (hd s \<noteq> ch \<and> last s \<noteq> ch)"
  shows "str_strip ch (replicate i ch @ s @ replicate j ch) = s"
proof (cases "s = []")
  case True
  then show ?thesis
    by (simp add: str_strip_def dropWhile_replicate_append dropWhile_replicate_same)
next
  case False
  with assms have h: "hd s \<noteq> ch" and l: "last s \<noteq> ch" by auto
  from False h have b: "dropWhile (\<lambda>c. c = ch) (s @ replicate j ch) = s @ replicate j ch"
    by (cases s) auto
  from False l have d: "dropWhile (\<lambda>c. c = ch) (rev s) = rev s"
    by (cases s rule: rev_cases) auto
  have "str_strip ch (replicate i ch @ s @ replicate j ch)
          = rev (dropWhile (\<lambda>c. c = ch) (rev (s @ replicate j ch)))"
    by (simp only: str_strip_def dropWhile_replicate_append b)
  also have "rev (s @ replicate j ch) = replicate j ch @ rev s" by simp
  also have "rev (dropWhile (\<lambda>c. c = ch) (replicate j ch @ rev s)) = s"
    by (simp only: dropWhile_replicate_append d rev_rev_ident)
  finally show ?thesis .
qed

text \<open>
  A path made of segments that are not empty and hold no slash, with any number of
  slashes before and after: the parts the Locator reads are those segments.
\<close>

lemma path_parts_of_wellformed:
  assumes ne: "segs \<noteq> []"
    and wf: "\<forall>seg \<in> set segs. seg \<noteq> [] \<and> CHR ''/'' \<notin> set seg"
  shows "path_parts_of (replicate i CHR ''/'' @ str_join ''/'' segs @ replicate j CHR ''/'') = segs"
proof -
  obtain x xs where segs: "segs = x # xs" using ne by (cases segs) auto
  have x: "x \<noteq> []" "CHR ''/'' \<notin> set x" using wf segs by auto
  have "hd (str_join ''/'' segs) = hd x" using x segs by (simp add: hd_str_join)
  moreover have "hd x \<noteq> CHR ''/''" using x by (cases x) auto
  ultimately have h: "hd (str_join ''/'' segs) \<noteq> CHR ''/''" by simp
  have "last segs \<in> set segs" using ne by simp
  then have "last segs \<noteq> []" "CHR ''/'' \<notin> set (last segs)" using wf by auto
  then have "last (last segs) \<noteq> CHR ''/''" using last_in_set by metis
  moreover have "last (str_join ''/'' segs) = last (last segs)"
    using ne wf by (simp add: last_str_join)
  ultimately have l: "last (str_join ''/'' segs) \<noteq> CHR ''/''" by simp
  have "str_strip CHR ''/'' (replicate i CHR ''/'' @ str_join ''/'' segs @ replicate j CHR ''/'')
          = str_join ''/'' segs"
    using h l by (intro str_strip_padded) simp
  moreover have "str_split CHR ''/'' (str_join ''/'' segs) = segs"
    using str_split_join[OF ne, of "CHR ''/''"] wf by auto
  ultimately show ?thesis by (simp add: path_parts_of_def)
qed

subsection \<open>The Locator\<close>

lemma parse_github_url_parts:
  assumes "urlparse url = Inr parsed" and "4 \<le> length (path_parts_of (url_path parsed))"
  shows "parse_github_url url =
           Inr (path_parts_of (url_path parsed) ! 0 @ ''/'' @ path_parts_of (url_path parsed) ! 1,
                path_parts_of (url_path parsed) ! 3,
                str_join ''/'' (drop 4 (path_parts_of (url_path parsed))))"
proof -
  from assms(2) have "path_parts_of (url_path parsed) \<noteq> []"
    by auto
  moreover from assms(2) have "1 < length (path_parts_of (url_path parsed))"
    and "3 < length (path_parts_of (url_path parsed))"
    by simp_all
  ultimately show ?thesis
    using assms(1) by (simp add: parse_github_url_def getitem_def Let_def)
qed

lemma parse_github_url_short:
  assumes "urlparse url = Inr parsed" and "length (path_parts_of (url_path parsed)) < 4"
  shows "parse_github_url url = Inl (IndexError ''list index out of range'')"
  using assms by (auto simp: parse_github_url_def getitem_def Let_def)

lemma parse_github_url_segments:
  assumes "urlparse url = Inr parsed"
    and "url_path parsed = replicate i CHR ''/''
           @ str_join ''/'' (owner # repo # marker # br # rest) @ replicate j CHR ''/''"
    and "\<forall>seg \<in> set (owner # repo # marker # br # rest). seg \<noteq> [] \<and> CHR ''/'' \<notin> set seg"
  shows "parse_github_url url = Inr (owner @ ''/'' @ repo, br, str_join ''/'' rest)"
proof -
  have "path_parts_of (url_path parsed) = owner # repo # marker # br # rest"
    unfolding assms(2) using assms(3) by (intro path_parts_of_wellformed) simp_all
  then show ?thesis
    using parse_github_url_parts[OF assms(1)] by simp
qed

text \<open>
  An empty part between two adjacent slashes is kept and counts: the path
  \<^verbatim>\<open>/a//b/c\<close> has the four parts \<^verbatim>\<open>a\<close>, the empty string, \<^verbatim>\<open>b\<close> and \<^verbatim>\<open>c\<close>, and
  the Locator reads \<^verbatim>\<open>c\<close> as the branch.
\<close>

lemma parse_github_url_empty_part:
  "path_parts_of ''/a//b/c'' = [''a'', [], ''b'', ''c'']
   \<and> parse_github_url ''https://github.com/a//b/c'' = Inr (''a/'', ''c'', [])"
  by code_simp

text \<open>
  C6. A well-formed URL: its path is four or more segments, none empty, joined by
  single slashes (slashes before the first and after the last do not count). Then the
  Locator returns the first two segments joined with a slash, the fourth segment as the
  branch, and the segments after it joined with slashes, which is the empty string when
  there are none.
\<close>

theorem locator_wellformed_url:
  assumes "urlparse url = Inr parsed"
    and "url_path parsed = replicate i CHR ''/''
           @ str_join ''/'' (owner # repo # marker # br # rest) @ replicate j CHR ''/''"
    and "\<forall>seg \<in> set (owner # repo # marker # br # rest). seg \<noteq> [] \<and> CHR ''/'' \<notin> set seg"
  shows "parse_github_url url = Inr (owner @ ''/'' @ repo, br, str_join ''/'' rest)
         \<and> (rest = [] \<longrightarrow> parse_github_url url = Inr (owner @ ''/'' @ repo, br, []))"
  using parse_github_url_segments[OF assms] by simp

theorem locator_wellformed_url_witness:
  "parse_github_url ''https://github.com/acme/widgets/tree/main/src/lib''
     = Inr (''acme/widgets'', ''main'', ''src/lib'')"
proof -
  have p: "urlparse ''https://github.com/acme/widgets/tree/main/src/lib''
             = Inr \<lparr> url_scheme = ''https'', url_netloc = ''github.com'',
                     url_path = ''/acme/widgets/tree/main/src/lib'', url_params = [],
                     url_query = [], url_fragment = [] \<rparr>"
    by code_simp
  have shape: "url_path \<lparr> url_scheme = ''https'', url_netloc = ''github.com'',
                     url_path = ''/acme/widgets/tree/main/src/lib'', url_params = [],
                     url_query = [], url_fragment = [] \<rparr>
                 = replicate 1 CHR ''/''
                   @ str_join ''/'' (''acme'' # ''widgets'' # ''tree'' # ''main'' # [''src'', ''lib''])
                   @ replicate 0 CHR ''/''"
    by simp
  have segs: "\<forall>seg \<in> set (''acme'' # ''widgets'' # ''tree'' # ''main'' # [''src'', ''lib'']).
              seg \<noteq> [] \<and> CHR ''/'' \<notin> set seg"
    by simp
  show ?thesis
    using locator_wellformed_url[OF p shape segs] by simp
qed

text \<open>
  C7. The path of \<^verbatim>\<open>https://github.com/a//b/c\<close> is \<^verbatim>\<open>/a//b/c\<close>. Split on the slash
  with the empty segments discarded it has the three segments \<^verbatim>\<open>a\<close>, \<^verbatim>\<open>b\<close> and
  \<^verbatim>\<open>c\<close>, fewer than four. The Locator does not fail on it: it returns the repository
  \<^verbatim>\<open>a/\<close>, the branch \<^verbatim>\<open>c\<close> and the empty subfolder, and \<^verbatim>\<open>main\<close> goes on to
  request the tree of that repository.
\<close>

theorem locator_too_few_segments_counterexample:
  "map_sum id url_path (urlparse ''https://github.com/a//b/c'') = Inr ''/a//b/c''
   \<and> filter (\<lambda>seg. seg \<noteq> []) (str_split CHR ''/'' ''/a//b/c'') = [''a'', ''b'', ''c'']
   \<and> length (filter (\<lambda>seg. seg \<noteq> []) (str_split CHR ''/'' ''/a//b/c'')) < 4
   \<and> parse_github_url ''https://github.com/a//b/c'' = Inr (''a/'', ''c'', [])
   \<and> requests (snd (main world_404 sys0 ''https://github.com/a//b/c'' ''out'' True None))
       = [''https://api.github.com/repos/a//git/trees/c?recursive=1'']"
  by code_simp

text \<open>
  C7, as the code has it. The parts of a path are the pieces between its slashes, the
  slashes before the first and after the last piece set aside; an empty piece between
  two adjacent slashes is a part and counts. With fewer than four parts the Locator
  raises \<^verbatim>\<open>IndexError\<close>, and \<^verbatim>\<open>main\<close> ends with that exception and the outside as it
  was: nothing was requested.
\<close>

theorem locator_too_few_segments:
  assumes "urlparse url = Inr parsed"
    and "length (path_parts_of (url_path parsed)) < 4"
  shows "parse_github_url url = Inl (IndexError ''list index out of range'')
         \<and> main w sys url root_dir' verify_ssl' pat_token'
             = (Inl (IndexError ''list index out of range''), sys)"
  using parse_github_url_short[OF assms] by (simp add: main_def)

theorem locator_too_few_segments_witness:
  "length (path_parts_of ''/acme/widgets/tree'') < 4
   \<and> parse_github_url ''https://github.com/acme/widgets/tree''
       = Inl (IndexError ''list index out of range'')
   \<and> main example_world sys0 ''https://github.com/acme/widgets/tree'' ''out'' True None
       = (Inl (IndexError ''list index out of range''), sys0)"
proof -
  have p: "urlparse ''https://github.com/acme/widgets/tree''
             = Inr \<lparr> url_scheme = ''https'', url_netloc = ''github.com'',
                     url_path = ''/acme/widgets/tree'', url_params = [],
                     url_query = [], url_fragment = [] \<rparr>"
    by code_simp
  have n: "length (path_parts_of ''/acme/widgets/tree'') < 4"
    by code_simp
  show ?thesis
    using n locator_too_few_segments[OF p, of example_world sys0 "''out''" True None] by simp
qed

text \<open>
  C9. The URL \<^verbatim>\<open>https://github.com/acme/widgets/tree\<close> has the three path segments
  \<^verbatim>\<open>acme\<close>, \<^verbatim>\<open>widgets\<close> and \<^verbatim>\<open>tree\<close>, and the Locator raises \<^verbatim>\<open>IndexError\<close> on
  it: it returns no triple at all.
\<close>

theorem locator_three_segments_counterexample:
  "map_sum id url_path (urlparse ''https://github.com/acme/widgets/tree'')
     = Inr ''/acme/widgets/tree''
   \<and> path_parts_of ''/acme/widgets/tree'' = [''acme'', ''widgets'', ''tree'']
   \<and> parse_github_url ''https://github.com/acme/widgets/tree''
       = Inl (IndexError ''list index out of range'')
   \<and> \<not> (\<exists>rn br. parse_github_url ''https://github.com/acme/widgets/tree'' = Inr (rn, br, []))"
proof -
  have p: "parse_github_url ''https://github.com/acme/widgets/tree''
             = Inl (IndexError ''list index out of range'')"
    by code_simp
  have "map_sum id url_path (urlparse ''https://github.com/acme/widgets/tree'')
          = Inr ''/acme/widgets/tree''"
    by code_simp
  moreover have "path_parts_of ''/acme/widgets/tree'' = [''acme'', ''widgets'', ''tree'']"
    by code_simp
  ultimately show ?thesis
    unfolding p by simp
qed

text \<open>
  C9, as the code has it. A URL whose path is exactly the four segments owner,
  repository, marker and branch, none empty: the Locator returns the owner and the
  repository joined with a slash, the branch, and the empty subfolder; the fetcher built
  from them selects every blob of a tree.
\<close>

theorem locator_without_subfolder:
  assumes "urlparse url = Inr parsed"
    and "url_path parsed = replicate i CHR ''/''
           @ str_join ''/'' [owner, repo, marker, br] @ replicate j CHR ''/''"
    and "\<forall>seg \<in> set [owner, repo, marker, br]. seg \<noteq> [] \<and> CHR ''/'' \<notin> set seg"
  shows "parse_github_url url = Inr (owner @ ''/'' @ repo, br, [])
         \<and> files_to_fetch (init (owner @ ''/'' @ repo) br [] root_dir' verify_ssl' pat_token') tree
             = filter (\<lambda>item. item_type item = ''blob'') tree"
  using parse_github_url_segments[OF assms]
  by (simp add: files_to_fetch_def init_def)

theorem locator_without_subfolder_witness:
  "parse_github_url ''https://github.com/acme/widgets/tree/main'' = Inr (''acme/widgets'', ''main'', [])
   \<and> map item_path (files_to_fetch (init ''acme/widgets'' ''main'' [] ''out'' True None) example_tree)
       = [''src/a.py'', ''src/lib/b.py'', ''docs/c.md'']"
proof -
  have p: "urlparse ''https://github.com/acme/widgets/tree/main''
             = Inr \<lparr> url_scheme = ''https'', url_netloc = ''github.com'',
                     url_path = ''/acme/widgets/tree/main'', url_params = [],
                     url_query = [], url_fragment = [] \<rparr>"
    by code_simp
  have shape: "url_path \<lparr> url_scheme = ''https'', url_netloc = ''github.com'',
                     url_path = ''/acme/widgets/tree/main'', url_params = [],
                     url_query = [], url_fragment = [] \<rparr>
                 = replicate 1 CHR ''/''
                   @ str_join ''/'' [''acme'', ''widgets'', ''tree'', ''main'']
                   @ replicate 0 CHR ''/''"
    by simp
  have segs: "\<forall>seg \<in> set [''acme'', ''widgets'', ''tree'', ''main'']. seg \<noteq> [] \<and> CHR ''/'' \<notin> set seg"
    by simp
  show ?thesis
    using locator_without_subfolder[OF p shape segs, of "''out''" True None example_tree]
    by (simp add: example_tree_def)
qed

text \<open>
  C10. Two URLs whose paths have the same parts except at index 2: the Locator gives
  the same result for both, the same triple or the same exception.
\<close>

theorem locator_ignores_marker:
  assumes "urlparse url1 = Inr parsed1" and "urlparse url2 = Inr parsed2"
    and "path_parts_of (url_path parsed2) = (path_parts_of (url_path parsed1))[2 := marker]"
  shows "parse_github_url url2 = parse_github_url url1"
  using assms by (simp add: parse_github_url_def getitem_def Let_def drop_update_cancel)

theorem locator_ignores_marker_witness:
  "parse_github_url ''https://github.com/acme/widgets/blob/main/src/lib''
     = parse_github_url ''https://github.com/acme/widgets/tree/main/src/lib''"
proof -
  have p1: "urlparse ''https://github.com/acme/widgets/tree/main/src/lib''
             = Inr \<lparr> url_scheme = ''https'', url_netloc = ''github.com'',
                     url_path = ''/acme/widgets/tree/main/src/lib'', url_params = [],
                     url_query = [], url_fragment = [] \<rparr>"
    by code_simp
  have p2: "urlparse ''https://github.com/acme/widgets/blob/main/src/lib''
             = Inr \<lparr> url_scheme = ''https'', url_netloc = ''github.com'',
                     url_path = ''/acme/widgets/blob/main/src/lib'', url_params = [],
                     url_query = [], url_fragment = [] \<rparr>"
    by code_simp
  have parts: "path_parts_of ''/acme/widgets/blob/main/src/lib''
                 = (path_parts_of ''/acme/widgets/tree/main/src/lib'')[2 := ''blob'']"
    by code_simp
  show ?thesis
    using locator_ignores_marker[OF p1 p2, of "''blob''"] parts by simp
qed

subsection \<open>The Tree Resolver\<close>

text \<open>
  C1. The entries selected for fetch are the entries of the tree, in their order, whose
  type is \<^verbatim>\<open>blob\<close> and whose path is the subfolder followed by anything; with an empty
  subfolder these are all the blobs. For the tree of the specification and the subfolder
  \<^verbatim>\<open>src/lib\<close> the selection is the one entry \<^verbatim>\<open>src/lib/b.py\<close>, and a run of
  \<^verbatim>\<open>fetch_files\<close> on that tree requests the tree and that one file.
\<close>

theorem tree_resolver_selects:
  "files_to_fetch self tree
     = filter (\<lambda>item. item_type item = ''blob'' \<and> (\<exists>rest. item_path item = subfolder self @ rest))
         tree
   \<and> files_to_fetch (self\<lparr>subfolder := []\<rparr>) tree = filter (\<lambda>item. item_type item = ''blob'') tree
   \<and> files_to_fetch (self\<lparr>subfolder := ''src/lib''\<rparr>) example_tree
       = [\<lparr> item_path = ''src/lib/b.py'', item_type = ''blob'' \<rparr>]
   \<and> requests (snd (snd (fetch_files example_world
                             (init ''acme/widgets'' ''main'' ''src/lib'' ''out'' True None) sys0)))
       = [''https://api.github.com/repos/acme/widgets/git/trees/main?recursive=1'',
          ''https://raw.githubusercontent.com/acme/widgets/refs/heads/main/src/lib/b.py'']"
proof (intro conjI)
  show "files_to_fetch self tree
          = filter (\<lambda>item. item_type item = ''blob''
                             \<and> (\<exists>rest. item_path item = subfolder self @ rest)) tree"
    unfolding files_to_fetch_def by (rule filter_cong) (auto simp: str_startswith_iff)
  show "files_to_fetch (self\<lparr>subfolder := []\<rparr>) tree
          = filter (\<lambda>item. item_type item = ''blob'') tree"
    by (simp add: files_to_fetch_def)
  show "files_to_fetch (self\<lparr>subfolder := ''src/lib''\<rparr>) example_tree
          = [\<lparr> item_path = ''src/lib/b.py'', item_type = ''blob'' \<rparr>]"
    by (simp add: files_to_fetch_def example_tree_def)
  show "requests (snd (snd (fetch_files example_world
                              (init ''acme/widgets'' ''main'' ''src/lib'' ''out'' True None) sys0)))
          = [''https://api.github.com/repos/acme/widgets/git/trees/main?recursive=1'',
             ''https://raw.githubusercontent.com/acme/widgets/refs/heads/main/src/lib/b.py'']"
    by code_simp
qed

subsection \<open>The Content Fetcher\<close>

text \<open>
  C4. When the request of a file is answered with a status other than 200, or raises a
  \<^verbatim>\<open>ClientError\<close> (a \<^verbatim>\<open>ClientConnectorError\<close> is one), \<^verbatim>\<open>get_file_content\<close>
  returns \<^verbatim>\<open>None\<close> and prints one line, which holds the URL; nothing else of the
  outside changes but the record of the request. A task with that file then ends
  normally, its exception never reaching \<^verbatim>\<open>gather\<close>.
\<close>

theorem content_fetcher_never_raises:
  assumes "(\<exists>r. session_get w (raw_url self filepath) (verify_ssl self) (headers self) = Responds r
                \<and> status r \<noteq> 200)
           \<or> (\<exists>e. session_get w (raw_url self filepath) (verify_ssl self) (headers self) = Raises e
                  \<and> isinstance_ClientError e)"
  shows "(\<exists>before after.
            get_file_content w self sys filepath
              = (Inr None,
                 sys\<lparr>requests := requests sys @ [raw_url self filepath],
                     stdout := stdout sys @ [before @ raw_url self filepath @ after]\<rparr>))
         \<and> (\<forall>item bar. item_path item = filepath \<and> progress_bar self = Some bar
                \<longrightarrow> fst (process_file w self sys item) = Inr True)"
  using assms
proof (elim disjE exE conjE)
  fix r
  assume r: "session_get w (raw_url self filepath) (verify_ssl self) (headers self) = Responds r"
    and s: "status r \<noteq> 200"
  have g: "get_file_content w self sys filepath
             = (Inr None,
                sys\<lparr>requests := requests sys @ [raw_url self filepath],
                    stdout := stdout sys
                      @ [(''Error '' @ str_nat (status r) @ '' for '') @ raw_url self filepath @ []]\<rparr>)"
    using r s by (simp add: get_file_content_def print_def Let_def)
  have "fst (process_file w self sys item) = Inr True"
    if "item_path item = filepath" and "progress_bar self = Some bar" for item bar
    using that g by (simp add: process_file_def Let_def)
  with g show ?thesis by blast
next
  fix e
  assume r: "session_get w (raw_url self filepath) (verify_ssl self) (headers self) = Raises e"
    and c: "isinstance_ClientError e"
  have g: "get_file_content w self sys filepath
             = (Inr None,
                sys\<lparr>requests := requests sys @ [raw_url self filepath],
                    stdout := stdout sys
                      @ [''Error fetching '' @ raw_url self filepath @ ('': '' @ str_exn e)]\<rparr>)"
    using r c by (simp add: get_file_content_def print_def Let_def)
  have "fst (process_file w self sys item) = Inr True"
    if "item_path item = filepath" and "progress_bar self = Some bar" for item bar
    using that g by (simp add: process_file_def Let_def)
  with g show ?thesis by blast
qed

theorem content_fetcher_never_raises_witness:
  "(\<exists>before after.
      get_file_content world_offline example_task_fetcher sys0 ''src/a.py''
        = (Inr None,
           sys0\<lparr>requests := requests sys0 @ [raw_url example_task_fetcher ''src/a.py''],
                stdout := stdout sys0
                  @ [before @ raw_url example_task_fetcher ''src/a.py'' @ after]\<rparr>))
   \<and> fst (process_file world_offline example_task_fetcher sys0
            \<lparr> item_path = ''src/a.py'', item_type = ''blob'' \<rparr>) = Inr True
   \<and> fst (get_file_content example_world example_task_fetcher sys0 ''src/a.py'') = Inr None
   \<and> fst (process_file example_world example_task_fetcher sys0
            \<lparr> item_path = ''src/a.py'', item_type = ''blob'' \<rparr>) = Inr True"
proof -
  let ?a = "\<lparr> item_path = ''src/a.py'', item_type = ''blob'' \<rparr>"
  have bar: "progress_bar example_task_fetcher
               = Some \<lparr> tqdm_total = 2, tqdm_desc = ''Downloading Files'',
                        tqdm_n = 0, tqdm_closed = False \<rparr>"
    by (simp add: example_task_fetcher_def)
  have "session_get world_offline (raw_url example_task_fetcher ''src/a.py'')
          (verify_ssl example_task_fetcher) (headers example_task_fetcher)
          = Raises (ClientConnectorError ''Cannot connect to host'')
        \<and> isinstance_ClientError (ClientConnectorError ''Cannot connect to host'')"
    by (simp add: world_offline_def)
  then have offline:
    "(\<exists>r. session_get world_offline (raw_url example_task_fetcher ''src/a.py'')
            (verify_ssl example_task_fetcher) (headers example_task_fetcher) = Responds r
          \<and> status r \<noteq> 200)
     \<or> (\<exists>e. session_get world_offline (raw_url example_task_fetcher ''src/a.py'')
              (verify_ssl example_task_fetcher) (headers example_task_fetcher) = Raises e
            \<and> isinstance_ClientError e)"
    by blast
  have "session_get example_world (raw_url example_task_fetcher ''src/a.py'')
          (verify_ssl example_task_fetcher) (headers example_task_fetcher) = Responds not_found
        \<and> status not_found \<noteq> 200"
    by code_simp
  then have missing:
    "(\<exists>r. session_get example_world (raw_url example_task_fetcher ''src/a.py'')
            (verify_ssl example_task_fetcher) (headers example_task_fetcher) = Responds r
          \<and> status r \<noteq> 200)
     \<or> (\<exists>e. session_get example_world (raw_url example_task_fetcher ''src/a.py'')
              (verify_ssl example_task_fetcher) (headers example_task_fetcher) = Raises e
            \<and> isinstance_ClientError e)"
    by blast
  have p: "item_path ?a = ''src/a.py''" by simp
  from content_fetcher_never_raises[OF offline, of sys0] bar p
  have 1: "\<exists>before after.
      get_file_content world_offline example_task_fetcher sys0 ''src/a.py''
        = (Inr None,
           sys0\<lparr>requests := requests sys0 @ [raw_url example_task_fetcher ''src/a.py''],
                stdout := stdout sys0
                  @ [before @ raw_url example_task_fetcher ''src/a.py'' @ after]\<rparr>)"
    and 2: "fst (process_file world_offline example_task_fetcher sys0 ?a) = Inr True"
    by blast+
  from content_fetcher_never_raises[OF missing, of sys0] bar p
  have 3: "fst (get_file_content example_world example_task_fetcher sys0 ''src/a.py'') = Inr None"
    and 4: "fst (process_file example_world example_task_fetcher sys0 ?a) = Inr True"
    by force+
  from 1 2 3 4 show ?thesis by blast
qed

subsection \<open>The Persistence Writer\<close>

lemma os_path_join_relative:
  assumes "a \<noteq> []" and "\<not> str_endswith a ''/''" and "\<not> str_startswith b ''/''"
  shows "os_path_join a b = a @ ''/'' @ b"
  using assms by (simp add: os_path_join_def)

lemma os_path_join_relative_inject:
  assumes "\<not> str_startswith p ''/''" and "\<not> str_startswith q ''/''"
    and "os_path_join a p = os_path_join a q"
  shows "p = q"
  using assms by (auto simp: os_path_join_def split: if_splits)

lemma save_file_content_writable:
  assumes "writable w self item"
  shows "\<exists>sys'. save_file_content w self sys (item_path item) t = (Inr (), sys')
           \<and> files sys' = (files sys)(full_path_of self item \<mapsto> t)"
  using assms by (simp add: writable_def save_file_content_def full_path_of_def Let_def)

text \<open>
  C3. A file whose request is answered with status 200 and a body that is not empty, on a
  file system that accepts the write: \<^verbatim>\<open>get_file_content\<close> returns the body, and after
  \<^verbatim>\<open>process_file\<close> the file at \<^verbatim>\<open>os.path.join(root_dir, path)\<close> holds exactly that
  text. For a root directory that is not empty and does not end with a slash and a
  relative path, that file is \<^verbatim>\<open>root_dir/path\<close>.
\<close>

theorem fetched_content_round_trip:
  assumes "session_get w (raw_url self (item_path item)) (verify_ssl self) (headers self)
             = Responds r"
    and "status r = 200" and "body_text r = Inr t" and "t \<noteq> []"
    and "writable w self item"
  shows "fst (get_file_content w self sys (item_path item)) = Inr (Some t)
         \<and> files (snd (snd (process_file w self sys item)))
             (os_path_join (root_dir self) (item_path item)) = Some t
         \<and> (root_dir self \<noteq> [] \<and> \<not> str_endswith (root_dir self) ''/''
              \<and> \<not> str_startswith (item_path item) ''/''
            \<longrightarrow> files (snd (snd (process_file w self sys item)))
                  (root_dir self @ ''/'' @ item_path item) = Some t)"
proof -
  have g: "get_file_content w self sys (item_path item)
             = (Inr (Some t), sys\<lparr>requests := requests sys @ [raw_url self (item_path item)]\<rparr>)"
    using assms(1-3) by (simp add: get_file_content_def Let_def)
  from save_file_content_writable[OF assms(5),
      of "sys\<lparr>requests := requests sys @ [raw_url self (item_path item)]\<rparr>" t]
  obtain sys2 where
    s: "save_file_content w self (sys\<lparr>requests := requests sys @ [raw_url self (item_path item)]\<rparr>)
          (item_path item) t = (Inr (), sys2)"
    and f: "files sys2 (full_path_of self item) = Some t"
    by auto
  have "files (snd (snd (process_file w self sys item))) (full_path_of self item) = Some t"
    using g s f assms(4) by (simp add: process_file_def Let_def split: option.splits)
  then have written:
    "files (snd (snd (process_file w self sys item)))
       (os_path_join (root_dir self) (item_path item)) = Some t"
    by (simp add: full_path_of_def)
  have literal:
    "files (snd (snd (process_file w self sys item)))
       (root_dir self @ ''/'' @ item_path item) = Some t"
    if "root_dir self \<noteq> []" and "\<not> str_endswith (root_dir self) ''/''"
      and "\<not> str_startswith (item_path item) ''/''"
    using written os_path_join_relative[OF that] by simp
  show ?thesis
    using g written literal by simp
qed

theorem fetched_content_round_trip_witness:
  "fst (get_file_content example_world example_task_fetcher sys0 ''src/lib/b.py'')
     = Inr (Some ''x = 1'')
   \<and> files (snd (snd (process_file example_world example_task_fetcher sys0
                         \<lparr> item_path = ''src/lib/b.py'', item_type = ''blob'' \<rparr>)))
       ''out/src/lib/b.py'' = Some ''x = 1''"
proof -
  let ?b = "\<lparr> item_path = ''src/lib/b.py'', item_type = ''blob'' \<rparr>"
  let ?r = "\<lparr> status = 200, body_text = Inr ''x = 1'',
               json_tree = Inl (OtherError ''not a JSON document'') \<rparr>"
  have r: "session_get example_world (raw_url example_task_fetcher (item_path ?b))
             (verify_ssl example_task_fetcher) (headers example_task_fetcher) = Responds ?r"
    by code_simp
  have s: "status ?r = 200" and b: "body_text ?r = Inr ''x = 1''" and n: "''x = 1'' \<noteq> []"
    by simp_all
  have wr: "writable example_world example_task_fetcher ?b"
    by code_simp
  have root: "root_dir example_task_fetcher \<noteq> []
              \<and> \<not> str_endswith (root_dir example_task_fetcher) ''/''
              \<and> \<not> str_startswith (item_path ?b) ''/''"
    by code_simp
  have at: "root_dir example_task_fetcher @ ''/'' @ item_path ?b = ''out/src/lib/b.py''"
    by code_simp
  from fetched_content_round_trip[OF r s b n wr, of sys0] root
  have "fst (get_file_content example_world example_task_fetcher sys0 (item_path ?b))
          = Inr (Some ''x = 1'')"
    and "files (snd (snd (process_file example_world example_task_fetcher sys0 ?b)))
           (root_dir example_task_fetcher @ ''/'' @ item_path ?b) = Some ''x = 1''"
    by blast+
  then show ?thesis
    unfolding at by simp
qed

subsection \<open>One task\<close>

lemma get_file_content_answered:
  assumes "answered w self item"
  shows "\<exists>c sys'. get_file_content w self sys (item_path item) = (Inr c, sys')
           \<and> files sys' = files sys
           \<and> (case c of None \<Rightarrow> None | Some t \<Rightarrow> if t \<noteq> [] then Some t else None)
               = fetched_text w self item"
proof (cases "session_get w (raw_url self (item_path item)) (verify_ssl self) (headers self)")
  case (Raises e)
  with assms have "isinstance_ClientError e" by (simp add: answered_def)
  with Raises show ?thesis
    by (simp add: get_file_content_def fetched_text_def print_def Let_def)
next
  case (Responds r)
  show ?thesis
  proof (cases "status r = 200")
    case False
    with Responds show ?thesis
      by (simp add: get_file_content_def fetched_text_def print_def Let_def)
  next
    case True
    with Responds assms obtain t where "body_text r = Inr t"
      by (auto simp: answered_def split: sum.splits)
    with True Responds show ?thesis
      by (simp add: get_file_content_def fetched_text_def Let_def)
  qed
qed

lemma process_file_answered:
  assumes a: "answered w self item"
    and wr: "fetched_text w self item \<noteq> None \<longrightarrow> writable w self item"
    and bar: "progress_bar self = Some bar"
  shows "\<exists>sys'. process_file w self sys item
             = (Inr True, self\<lparr>progress_bar := Some (tqdm_update bar 1)\<rparr>, sys')
           \<and> files sys' = (case fetched_text w self item of
                             None \<Rightarrow> files sys
                           | Some t \<Rightarrow> (files sys)(full_path_of self item \<mapsto> t))"
proof -
  from get_file_content_answered[OF a, of sys] obtain c sys1 where
    g: "get_file_content w self sys (item_path item) = (Inr c, sys1)"
    and f: "files sys1 = files sys"
    and c: "(case c of None \<Rightarrow> None | Some t \<Rightarrow> if t \<noteq> [] then Some t else None)
              = fetched_text w self item"
    by blast
  show ?thesis
  proof (cases "fetched_text w self item")
    case None
    with c have "c = None \<or> c = Some []" by (auto split: option.splits if_splits)
    with g f bar None show ?thesis
      by (auto simp: process_file_def Let_def)
  next
    case (Some t)
    with c have ct: "c = Some t" "t \<noteq> []" by (auto split: option.splits if_splits)
    from Some wr have "writable w self item" by simp
    from save_file_content_writable[OF this, of sys1 t] obtain sys2 where
      s: "save_file_content w self sys1 (item_path item) t = (Inr (), sys2)"
      and f2: "files sys2 = (files sys1)(full_path_of self item \<mapsto> t)"
      by blast
    with g f bar Some ct show ?thesis
      by (simp add: process_file_def Let_def)
  qed
qed

lemma answered_progress_bar [simp]:
  "answered w (self\<lparr>progress_bar := b\<rparr>) item = answered w self item"
  by (simp add: answered_def raw_url_def)

lemma fetched_text_progress_bar [simp]:
  "fetched_text w (self\<lparr>progress_bar := b\<rparr>) item = fetched_text w self item"
  by (simp add: fetched_text_def raw_url_def)

lemma full_path_of_progress_bar [simp]:
  "full_path_of (self\<lparr>progress_bar := b\<rparr>) item = full_path_of self item"
  by (simp add: full_path_of_def)

lemma writable_progress_bar [simp]:
  "writable w (self\<lparr>progress_bar := b\<rparr>) item = writable w self item"
  by (simp add: writable_def)

lemma answered_total_files [simp]:
  "answered w (self\<lparr>total_files := n\<rparr>) item = answered w self item"
  by (simp add: answered_def raw_url_def)

lemma fetched_text_total_files [simp]:
  "fetched_text w (self\<lparr>total_files := n\<rparr>) item = fetched_text w self item"
  by (simp add: fetched_text_def raw_url_def)

lemma full_path_of_total_files [simp]:
  "full_path_of (self\<lparr>total_files := n\<rparr>) item = full_path_of self item"
  by (simp add: full_path_of_def)

lemma writable_total_files [simp]:
  "writable w (self\<lparr>total_files := n\<rparr>) item = writable w self item"
  by (simp add: writable_def)

lemma fetched_text_same_path:
  "item_path a = item_path b \<Longrightarrow> fetched_text w self a = fetched_text w self b"
  by (simp add: fetched_text_def)

subsection \<open>The batch\<close>

lemma gather_answered:
  assumes "\<forall>item \<in> set items. answered w self item"
    and "\<forall>item \<in> set items. fetched_text w self item \<noteq> None \<longrightarrow> writable w self item"
    and "progress_bar self = Some bar"
  shows "\<exists>sys'. gather w self sys items
             = (Inr (), self\<lparr>progress_bar := Some (tqdm_update bar (length items))\<rparr>, sys')
           \<and> files sys' =
               fold (\<lambda>item fs. case fetched_text w self item of
                                  None \<Rightarrow> fs
                                | Some t \<Rightarrow> fs(full_path_of self item \<mapsto> t))
                 items (files sys)"
  using assms
proof (induction items arbitrary: self bar sys)
  case Nil
  have "self\<lparr>progress_bar := Some (tqdm_update bar 0)\<rparr> = self"
    using Nil.prems(3) by (simp add: tqdm_update_def)
  then show ?case by simp
next
  case (Cons item items)
  let ?self1 = "self\<lparr>progress_bar := Some (tqdm_update bar 1)\<rparr>"
  from Cons.prems have a: "answered w self item"
    and wr: "fetched_text w self item \<noteq> None \<longrightarrow> writable w self item"
    by simp_all
  from process_file_answered[OF a wr Cons.prems(3), of sys] obtain sys1 where
    p: "process_file w self sys item = (Inr True, ?self1, sys1)"
    and f1: "files sys1 = (case fetched_text w self item of
                             None \<Rightarrow> files sys
                           | Some t \<Rightarrow> (files sys)(full_path_of self item \<mapsto> t))"
    by blast
  have "\<forall>x \<in> set items. answered w ?self1 x"
    and "\<forall>x \<in> set items. fetched_text w ?self1 x \<noteq> None \<longrightarrow> writable w ?self1 x"
    and "progress_bar ?self1 = Some (tqdm_update bar 1)"
    using Cons.prems by simp_all
  from Cons.IH[OF this, of sys1] obtain sys' where
    g: "gather w ?self1 sys1 items
          = (Inr (), ?self1\<lparr>progress_bar := Some (tqdm_update (tqdm_update bar 1) (length items))\<rparr>,
             sys')"
    and f: "files sys' =
              fold (\<lambda>item fs. case fetched_text w ?self1 item of
                                 None \<Rightarrow> fs
                               | Some t \<Rightarrow> fs(full_path_of ?self1 item \<mapsto> t))
                items (files sys1)"
    by blast
  have u: "tqdm_update (tqdm_update bar 1) (length items) = tqdm_update bar (length (item # items))"
    by (simp add: tqdm_update_def)
  have same: "(\<lambda>item fs. case fetched_text w ?self1 item of
                             None \<Rightarrow> fs
                           | Some t \<Rightarrow> fs(full_path_of ?self1 item \<mapsto> t))
              = (\<lambda>item fs. case fetched_text w self item of
                               None \<Rightarrow> fs
                             | Some t \<Rightarrow> fs(full_path_of self item \<mapsto> t))"
    by (simp cong: option.case_cong)
  from f have f': "files sys' =
                     fold (\<lambda>item fs. case fetched_text w self item of
                                        None \<Rightarrow> fs
                                      | Some t \<Rightarrow> fs(full_path_of self item \<mapsto> t))
                       items (files sys1)"
    unfolding same .
  show ?case
    using p g f' f1 u by simp
qed

lemma fold_writes_keep:
  assumes "fs k = Some t"
    and "\<forall>y \<in> set xs. key y = k \<longrightarrow> val y = None \<or> val y = Some t"
  shows "fold (\<lambda>y fs. case val y of None \<Rightarrow> fs | Some v \<Rightarrow> fs(key y \<mapsto> v)) xs fs k = Some t"
  using assms
proof (induction xs arbitrary: fs)
  case Nil
  then show ?case by simp
next
  case (Cons y ys)
  have "(case val y of None \<Rightarrow> fs | Some v \<Rightarrow> fs(key y \<mapsto> v)) k = Some t"
    using Cons.prems by (auto split: option.splits)
  moreover have "\<forall>z \<in> set ys. key z = k \<longrightarrow> val z = None \<or> val z = Some t"
    using Cons.prems by simp
  ultimately show ?case
    using Cons.IH by simp
qed

lemma fold_writes_lookup:
  assumes "x \<in> set xs" and "val x = Some t"
    and "\<forall>y \<in> set xs. key y = key x \<longrightarrow> val y = None \<or> val y = Some t"
  shows "fold (\<lambda>y fs. case val y of None \<Rightarrow> fs | Some v \<Rightarrow> fs(key y \<mapsto> v)) xs fs (key x) = Some t"
  using assms
proof (induction xs arbitrary: fs)
  case Nil
  then show ?case by simp
next
  case (Cons y ys)
  have rest: "\<forall>z \<in> set ys. key z = key x \<longrightarrow> val z = None \<or> val z = Some t"
    using Cons.prems by simp
  show ?case
  proof (cases "x = y")
    case True
    have "(fs(key x \<mapsto> t)) (key x) = Some t" by simp
    then have "fold (\<lambda>y fs. case val y of None \<Rightarrow> fs | Some v \<Rightarrow> fs(key y \<mapsto> v)) ys
                 (fs(key x \<mapsto> t)) (key x) = Some t"
      using rest by (rule fold_writes_keep)
    with True Cons.prems(2) show ?thesis by simp
  next
    case False
    with Cons.prems have "x \<in> set ys" by simp
    from Cons.IH[OF this Cons.prems(2) rest] show ?thesis by simp
  qed
qed

text \<open>
  C2. A batch whose tree query succeeded and selected at least one file, on a network
  that answers every request of the batch (with any status, or with a
  \<^verbatim>\<open>ClientError\<close>) and a file system that accepts the writes, with relative paths as
  GitHub lists them, the tasks finishing in any order: \<^verbatim>\<open>fetch_files\<close> returns
  normally, the counter of the progress bar ends at \<^verbatim>\<open>total_files\<close>, which is the
  number of tasks, and every file that was fetched with status 200 and a body that is
  not empty is on disk with that body, whatever the other requests returned. Each task
  of the batch, run in any state, ends normally and adds exactly one to the counter.
\<close>

theorem batch_survives_failed_fetches:
  assumes tree: "session_get w (tree_url self) (verify_ssl self) (headers self) = Responds resp"
      "status resp = 200" "json_tree resp = Inr tree"
    and tasks: "files_to_fetch self tree \<noteq> []"
    and order: "mset (completion_order w (files_to_fetch self tree)) = mset (files_to_fetch self tree)"
    and ans: "\<forall>item \<in> set (files_to_fetch self tree). answered w self item"
    and wr: "\<forall>item \<in> set (files_to_fetch self tree).
               fetched_text w self item \<noteq> None \<longrightarrow> writable w self item"
    and rel: "\<forall>item \<in> set (files_to_fetch self tree). \<not> str_startswith (item_path item) ''/''"
  shows "\<exists>self' sys'. fetch_files w self sys = (Inr (), self', sys')
           \<and> total_files self' = length (files_to_fetch self tree)
           \<and> map_option tqdm_n (progress_bar self') = Some (total_files self')
           \<and> (\<forall>item \<in> set (files_to_fetch self tree). \<forall>t.
                 fetched_text w self item = Some t
                   \<longrightarrow> files sys' (full_path_of self item) = Some t)
           \<and> (\<forall>item \<in> set (files_to_fetch self tree). \<forall>bar sys1.
                 fst (process_file w (self\<lparr>progress_bar := Some bar\<rparr>) sys1 item) = Inr True
                 \<and> fst (snd (process_file w (self\<lparr>progress_bar := Some bar\<rparr>) sys1 item))
                     = self\<lparr>progress_bar := Some (bar\<lparr>tqdm_n := tqdm_n bar + 1\<rparr>)\<rparr>)"
proof -
  let ?F = "files_to_fetch self tree"
  let ?order = "completion_order w ?F"
  let ?bar = "\<lparr> tqdm_total = length ?F, tqdm_desc = ''Downloading Files'',
                 tqdm_n = 0, tqdm_closed = False \<rparr>"
  let ?self2 = "self\<lparr>total_files := length ?F, progress_bar := Some ?bar\<rparr>"
  let ?sys1 = "sys\<lparr>requests := requests sys @ [tree_url self]\<rparr>"
  from order have set_eq: "set ?order = set ?F" by (rule mset_eq_setD)
  from order have len_eq: "length ?order = length ?F" by (rule mset_eq_length)
  have a2: "\<forall>item \<in> set ?order. answered w ?self2 item"
    using ans set_eq by simp
  have w2: "\<forall>item \<in> set ?order. fetched_text w ?self2 item \<noteq> None \<longrightarrow> writable w ?self2 item"
    using wr set_eq by simp
  have b2: "progress_bar ?self2 = Some ?bar" by simp
  from gather_answered[OF a2 w2 b2, of ?sys1] obtain sys3 where
    g: "gather w ?self2 ?sys1 ?order
          = (Inr (), ?self2\<lparr>progress_bar := Some (tqdm_update ?bar (length ?order))\<rparr>, sys3)"
    and f: "files sys3 =
              fold (\<lambda>item fs. case fetched_text w ?self2 item of
                                 None \<Rightarrow> fs
                               | Some t \<Rightarrow> fs(full_path_of ?self2 item \<mapsto> t))
                ?order (files ?sys1)"
    by blast
  let ?self' = "?self2\<lparr>progress_bar :=
                  Some ((tqdm_update ?bar (length ?order))\<lparr>tqdm_closed := True\<rparr>)\<rparr>"
  from tasks have n0: "length ?F \<noteq> 0" by simp
  have run: "fetch_files w self sys = (Inr (), ?self', sys3)"
    using tree n0 g by (simp add: fetch_files_def Let_def)
  have persisted: "files sys3 (full_path_of self item) = Some t"
    if item: "item \<in> set ?F" and t: "fetched_text w self item = Some t" for item t
  proof -
    have same: "(\<lambda>item fs. case fetched_text w ?self2 item of
                               None \<Rightarrow> fs
                             | Some t \<Rightarrow> fs(full_path_of ?self2 item \<mapsto> t))
                = (\<lambda>item fs. case fetched_text w self item of
                                 None \<Rightarrow> fs
                               | Some t \<Rightarrow> fs(full_path_of self item \<mapsto> t))"
      by (simp cong: option.case_cong)
    have others: "\<forall>y \<in> set ?order. full_path_of self y = full_path_of self item
                    \<longrightarrow> fetched_text w self y = None \<or> fetched_text w self y = Some t"
    proof (intro ballI impI)
      fix y assume y: "y \<in> set ?order" and k: "full_path_of self y = full_path_of self item"
      from y set_eq rel have "\<not> str_startswith (item_path y) ''/''" by simp
      moreover from item rel have "\<not> str_startswith (item_path item) ''/''" by simp
      ultimately have "item_path y = item_path item"
        using k unfolding full_path_of_def by (rule os_path_join_relative_inject)
      then have "fetched_text w self y = fetched_text w self item"
        by (rule fetched_text_same_path)
      with t show "fetched_text w self y = None \<or> fetched_text w self y = Some t" by simp
    qed
    from item set_eq have "item \<in> set ?order" by simp
    from fold_writes_lookup[where key = "full_path_of self" and val = "fetched_text w self",
        OF this t others]
    show ?thesis unfolding f same .
  qed
  have counted:
    "fst (process_file w (self\<lparr>progress_bar := Some bar\<rparr>) sys1 item) = Inr True
     \<and> fst (snd (process_file w (self\<lparr>progress_bar := Some bar\<rparr>) sys1 item))
         = self\<lparr>progress_bar := Some (bar\<lparr>tqdm_n := tqdm_n bar + 1\<rparr>)\<rparr>"
    if item: "item \<in> set ?F" for item bar sys1
  proof -
    let ?self1 = "self\<lparr>progress_bar := Some bar\<rparr>"
    from item ans have a: "answered w ?self1 item" by simp
    from item wr have w1: "fetched_text w ?self1 item \<noteq> None \<longrightarrow> writable w ?self1 item"
      by simp
    have b: "progress_bar ?self1 = Some bar" by simp
    from process_file_answered[OF a w1 b, of sys1] show ?thesis
      by (auto simp: tqdm_update_def)
  qed
  have "total_files ?self' = length ?F" by simp
  moreover have "map_option tqdm_n (progress_bar ?self') = Some (total_files ?self')"
    using len_eq by (simp add: tqdm_update_def)
  ultimately show ?thesis
    using run persisted counted by blast
qed

theorem batch_survives_failed_fetches_witness:
  "session_get example_world (raw_url example_fetcher ''src/a.py'') True [] = Responds not_found
   \<and> status not_found = 404
   \<and> (\<exists>self' sys'. fetch_files example_world example_fetcher sys0 = (Inr (), self', sys')
         \<and> total_files self' = 2
         \<and> map_option tqdm_n (progress_bar self') = Some 2
         \<and> files sys' ''out/src/lib/b.py'' = Some ''x = 1'')"
proof -
  let ?b = "\<lparr> item_path = ''src/lib/b.py'', item_type = ''blob'' \<rparr>"
  have F: "files_to_fetch example_fetcher example_tree
             = [\<lparr> item_path = ''src/a.py'', item_type = ''blob'' \<rparr>, ?b]"
    by code_simp
  have tree: "session_get example_world (tree_url example_fetcher) (verify_ssl example_fetcher)
                (headers example_fetcher)
              = Responds \<lparr> status = 200, body_text = Inr ''{}'', json_tree = Inr example_tree \<rparr>"
    by code_simp
  have ok: "status \<lparr> status = 200, body_text = Inr ''{}'', json_tree = Inr example_tree \<rparr> = 200"
    and js: "json_tree \<lparr> status = 200, body_text = Inr ''{}'', json_tree = Inr example_tree \<rparr>
               = Inr example_tree"
    by simp_all
  have tasks: "files_to_fetch example_fetcher example_tree \<noteq> []"
    by (simp add: F)
  have order: "mset (completion_order example_world (files_to_fetch example_fetcher example_tree))
                 = mset (files_to_fetch example_fetcher example_tree)"
    by (simp add: example_world_def)
  have ans: "\<forall>item \<in> set (files_to_fetch example_fetcher example_tree).
               answered example_world example_fetcher item"
    by code_simp
  have wr: "\<forall>item \<in> set (files_to_fetch example_fetcher example_tree).
              fetched_text example_world example_fetcher item \<noteq> None
                \<longrightarrow> writable example_world example_fetcher item"
    by code_simp
  have rel: "\<forall>item \<in> set (files_to_fetch example_fetcher example_tree).
               \<not> str_startswith (item_path item) ''/''"
    by code_simp
  from batch_survives_failed_fetches[OF tree ok js tasks order ans wr rel, of sys0]
  obtain self' sys' where
    run: "fetch_files example_world example_fetcher sys0 = (Inr (), self', sys')"
    and total: "total_files self' = length (files_to_fetch example_fetcher example_tree)"
    and count: "map_option tqdm_n (progress_bar self') = Some (total_files self')"
    and disk: "\<forall>item \<in> set (files_to_fetch example_fetcher example_tree). \<forall>t.
                 fetched_text example_world example_fetcher item = Some t
                   \<longrightarrow> files sys' (full_path_of example_fetcher item) = Some t"
    by blast
  have b: "fetched_text example_world example_fetcher ?b = Some ''x = 1''"
    by code_simp
  have p: "full_path_of example_fetcher ?b = ''out/src/lib/b.py''"
    by code_simp
  from disk b have "files sys' (full_path_of example_fetcher ?b) = Some ''x = 1''"
    unfolding F by simp
  then have d: "files sys' ''out/src/lib/b.py'' = Some ''x = 1''"
    unfolding p .
  have a: "session_get example_world (raw_url example_fetcher ''src/a.py'') True []
             = Responds not_found"
    by code_simp
  have s: "status not_found = 404"
    by code_simp
  have n: "length (files_to_fetch example_fetcher example_tree) = 2"
    unfolding F by simp
  from total have t2: "total_files self' = 2"
    unfolding n .
  from count have c2: "map_option tqdm_n (progress_bar self') = Some 2"
    unfolding t2 .
  from run t2 c2 d a s show ?thesis by blast
qed

subsection \<open>A tree query that fails\<close>

lemma fetch_files_tree_not_200:
  assumes "session_get w (tree_url self) (verify_ssl self) (headers self) = Responds r"
    and "status r \<noteq> 200"
  shows "fetch_files w self sys
           = (Inr (), self,
              sys\<lparr>requests := requests sys @ [tree_url self],
                  stdout := stdout sys
                    @ [''Error '' @ str_nat (status r) @ '' for '' @ tree_url self]\<rparr>)"
  using assms by (simp add: fetch_files_def print_def Let_def)

lemma fetch_files_tree_client_error:
  assumes "session_get w (tree_url self) (verify_ssl self) (headers self) = Raises e"
    and "isinstance_ClientError e"
  shows "fetch_files w self sys
           = (Inr (), self,
              sys\<lparr>requests := requests sys @ [tree_url self],
                  stdout := stdout sys @ [''Error fetching tree: '' @ str_exn e]\<rparr>)"
  using assms by (simp add: fetch_files_def print_def Let_def)

text \<open>
  C5. A run whose tree query is answered with a status other than 200:
  \<^verbatim>\<open>fetch_files\<close> returns with the fetcher as \<^verbatim>\<open>__init__\<close> left it (no file counted,
  no progress bar, so no task was created), and \<^verbatim>\<open>main\<close> returns with the outside
  changed in two places only, the tree request and one printed line: no file was
  requested, no directory made and no file written.
\<close>

theorem tree_query_non_200_fetches_nothing:
  assumes "parse_github_url url = Inr (rn, br, sf)"
    and "self = init rn br sf root_dir' verify_ssl' pat_token'"
    and "session_get w (tree_url self) (verify_ssl self) (headers self) = Responds r"
    and "status r \<noteq> 200"
  shows "fetch_files w self sys
           = (Inr (), self,
              sys\<lparr>requests := requests sys @ [tree_url self],
                  stdout := stdout sys
                    @ [''Error '' @ str_nat (status r) @ '' for '' @ tree_url self]\<rparr>)
         \<and> total_files self = 0 \<and> progress_bar self = None
         \<and> main w sys url root_dir' verify_ssl' pat_token'
             = (Inr (),
                sys\<lparr>requests := requests sys @ [tree_url self],
                    stdout := stdout sys
                      @ [''Error '' @ str_nat (status r) @ '' for '' @ tree_url self]\<rparr>)
         \<and> files (snd (main w sys url root_dir' verify_ssl' pat_token')) = files sys
         \<and> dirs (snd (main w sys url root_dir' verify_ssl' pat_token')) = dirs sys"
proof -
  note run = fetch_files_tree_not_200[OF assms(3,4), of sys]
  have "total_files self = 0" and "progress_bar self = None"
    using assms(2) by (simp_all add: init_def)
  moreover have "main w sys url root_dir' verify_ssl' pat_token'
                   = (Inr (),
                      sys\<lparr>requests := requests sys @ [tree_url self],
                          stdout := stdout sys
                            @ [''Error '' @ str_nat (status r) @ '' for '' @ tree_url self]\<rparr>)"
    using assms(1) run unfolding assms(2) by (simp add: main_def)
  ultimately show ?thesis
    using run by simp
qed

theorem tree_query_non_200_fetches_nothing_witness:
  "main world_404 sys0 ''https://github.com/acme/widgets/tree/main/src'' ''out'' True None
     = (Inr (),
        sys0\<lparr>requests := requests sys0 @ [tree_url example_fetcher],
             stdout := stdout sys0
               @ [''Error '' @ str_nat (status not_found) @ '' for '' @ tree_url example_fetcher]\<rparr>)
   \<and> files (snd (main world_404 sys0 ''https://github.com/acme/widgets/tree/main/src''
                    ''out'' True None)) = files sys0
   \<and> requests (snd (main world_404 sys0 ''https://github.com/acme/widgets/tree/main/src''
                       ''out'' True None))
       = [''https://api.github.com/repos/acme/widgets/git/trees/main?recursive=1'']
   \<and> stdout (snd (main world_404 sys0 ''https://github.com/acme/widgets/tree/main/src''
                     ''out'' True None))
       = [''Error 404 for https://api.github.com/repos/acme/widgets/git/trees/main?recursive=1'']"
proof -
  have p: "parse_github_url ''https://github.com/acme/widgets/tree/main/src''
             = Inr (''acme/widgets'', ''main'', ''src'')"
    by code_simp
  have f: "example_fetcher = init ''acme/widgets'' ''main'' ''src'' ''out'' True None"
    by (simp add: example_fetcher_def)
  have r: "session_get world_404 (tree_url example_fetcher) (verify_ssl example_fetcher)
             (headers example_fetcher) = Responds not_found"
    by (simp add: world_404_def)
  have s: "status not_found \<noteq> 200"
    by (simp add: not_found_def)
  have u: "tree_url example_fetcher
             = ''https://api.github.com/repos/acme/widgets/git/trees/main?recursive=1''"
    by code_simp
  have l: "str_nat (status not_found) = ''404''"
    by code_simp
  from tree_query_non_200_fetches_nothing[OF p f r s, of sys0]
  have m: "main world_404 sys0 ''https://github.com/acme/widgets/tree/main/src'' ''out'' True None
             = (Inr (),
                sys0\<lparr>requests := requests sys0 @ [tree_url example_fetcher],
                     stdout := stdout sys0
                       @ [''Error '' @ str_nat (status not_found) @ '' for ''
                            @ tree_url example_fetcher]\<rparr>)"
    by blast
  show ?thesis
    unfolding m by (simp add: l u sys0_def)
qed

text \<open>
  C8. The run of the specification's URL on a network that answers the tree query with
  status 404, and on one that cannot be reached: in both \<^verbatim>\<open>main\<close> returns without an
  exception and the exit status is 0.
\<close>

theorem tree_query_failure_counterexample:
  "session_get world_404 ''https://api.github.com/repos/acme/widgets/git/trees/main?recursive=1''
      True [] = Responds not_found
   \<and> status not_found = 404
   \<and> fst (main world_404 sys0 ''https://github.com/acme/widgets/tree/main/src/lib''
            ''out'' True None) = Inr ()
   \<and> exit_status world_404 sys0 ''https://github.com/acme/widgets/tree/main/src/lib''
        ''out'' True None = 0
   \<and> session_get world_offline
        ''https://api.github.com/repos/acme/widgets/git/trees/main?recursive=1'' True []
       = Raises (ClientConnectorError ''Cannot connect to host'')
   \<and> fst (main world_offline sys0 ''https://github.com/acme/widgets/tree/main/src/lib''
            ''out'' True None) = Inr ()
   \<and> exit_status world_offline sys0 ''https://github.com/acme/widgets/tree/main/src/lib''
        ''out'' True None = 0"
  by code_simp

text \<open>
  C8, as the code has it. When the tree query is answered with a status other than 200
  or raises a \<^verbatim>\<open>ClientError\<close> (a \<^verbatim>\<open>ClientConnectorError\<close> is one), \<^verbatim>\<open>fetch_files\<close>
  handles it: \<^verbatim>\<open>main\<close> returns without an exception, having made the tree request and
  printed one line and nothing else, and the exit status is 0.
\<close>

theorem tree_query_failure_exits_normally:
  assumes "parse_github_url url = Inr (rn, br, sf)"
    and "self = init rn br sf root_dir' verify_ssl' pat_token'"
    and "(\<exists>r. session_get w (tree_url self) (verify_ssl self) (headers self) = Responds r
               \<and> status r \<noteq> 200)
         \<or> (\<exists>e. session_get w (tree_url self) (verify_ssl self) (headers self) = Raises e
                \<and> isinstance_ClientError e)"
  shows "(\<exists>line. main w sys url root_dir' verify_ssl' pat_token'
                   = (Inr (),
                      sys\<lparr>requests := requests sys @ [tree_url self],
                          stdout := stdout sys @ [line]\<rparr>))
         \<and> exit_status w sys url root_dir' verify_ssl' pat_token' = 0"
proof -
  from assms(3) obtain line where
    "fetch_files w self sys
       = (Inr (), self,
          sys\<lparr>requests := requests sys @ [tree_url self], stdout := stdout sys @ [line]\<rparr>)"
    using fetch_files_tree_not_200[of w self _ sys] fetch_files_tree_client_error[of w self _ sys]
    by blast
  then have "main w sys url root_dir' verify_ssl' pat_token'
               = (Inr (),
                  sys\<lparr>requests := requests sys @ [tree_url self], stdout := stdout sys @ [line]\<rparr>)"
    using assms(1) unfolding assms(2) by (simp add: main_def)
  then show ?thesis
    by (auto simp: exit_status_def)
qed

theorem tree_query_failure_exits_normally_witness:
  "(\<exists>line. main world_offline sys0 ''https://github.com/acme/widgets/tree/main/src'' ''out'' True None
             = (Inr (),
                sys0\<lparr>requests := requests sys0 @ [tree_url example_fetcher],
                     stdout := stdout sys0 @ [line]\<rparr>))
   \<and> exit_status world_offline sys0 ''https://github.com/acme/widgets/tree/main/src''
        ''out'' True None = 0"
proof -
  have p: "parse_github_url ''https://github.com/acme/widgets/tree/main/src''
             = Inr (''acme/widgets'', ''main'', ''src'')"
    by code_simp
  have f: "example_fetcher = init ''acme/widgets'' ''main'' ''src'' ''out'' True None"
    by (simp add: example_fetcher_def)
  have "session_get world_offline (tree_url example_fetcher) (verify_ssl example_fetcher)
          (headers example_fetcher) = Raises (ClientConnectorError ''Cannot connect to host'')
        \<and> isinstance_ClientError (ClientConnectorError ''Cannot connect to host'')"
    by (simp add: world_offline_def)
  then have r:
    "(\<exists>r. session_get world_offline (tree_url example_fetcher) (verify_ssl example_fetcher)
            (headers example_fetcher) = Responds r \<and> status r \<noteq> 200)
     \<or> (\<exists>e. session_get world_offline (tree_url example_fetcher) (verify_ssl example_fetcher)
              (headers example_fetcher) = Raises e \<and> isinstance_ClientError e)"
    by blast
  show ?thesis
    using tree_query_failure_exits_normally[OF p f r, of sys0] .
qed

end
